theory Spec2Isabelle
  imports Complex_Main
begin

section \<open>Data model (main.go, lines 19-31)\<close>

text \<open>
  The Go struct \<^verbatim>\<open>Student\<close>. Go's \<^verbatim>\<open>int\<close> is modelled as \<open>int\<close>: the program only
  compares these values and prints them, it never computes with them, so no
  wrap-around can occur; values that do not fit the machine integer are rejected by
  the decoders before a handler sees them. A Go string is a sequence of bytes, as
  \<open>string\<close> is.
\<close>

record Student =
  ID :: int
  Name :: string
  Age :: int
  Email :: string

text \<open>
  The package-level variables: the map \<^verbatim>\<open>students\<close>, \<^verbatim>\<open>ollamaHost\<close> and
  \<^verbatim>\<open>useOllama\<close>. The mutex \<^verbatim>\<open>studentsMu\<close> is not a field: every handler reads
  or writes the map inside a single critical section (the test for presence and the
  write are under the same \<^verbatim>\<open>Lock\<close>), so a handler is modelled as one atomic step
  on the state.
\<close>

record state =
  students :: "int \<rightharpoonup> Student"
  ollamaHost :: string
  useOllama :: bool

subsection \<open>Values decoded from JSON by encoding/json\<close>

text \<open>
  What \<^verbatim>\<open>json.Unmarshal\<close> stores in an \<^verbatim>\<open>interface{}\<close>: nil, bool, float64,
  string, a slice or a map. Every finite float64 is a rational number.
\<close>

datatype jvalue =
    JNull
  | JBool bool
  | JNumber rat
  | JString string
  | JArray "jvalue list"
  | JObject "(string \<times> jvalue) list"

type_synonym jobject = "string \<rightharpoonup> jvalue"

subsection \<open>Errors of the generation path\<close>

text \<open>
  The errors that \<^verbatim>\<open>generateSummaryWithOllama\<close> builds with \<^verbatim>\<open>fmt.Errorf\<close>, one
  constructor for each format string, carrying the values that the format prints:
  \<^item> \<open>MarshalError e\<close>: "error marshaling request body: %v"
  \<^item> \<open>CreateRequestError e\<close>: "error creating request: %v"
  \<^item> \<open>PostError e\<close>: "error making POST request to Ollama: %v"
  \<^item> \<open>ReadBodyError e\<close>: "error reading response body: %v"
  \<^item> \<open>Non200 code body\<close>: "Ollama API returned non-200 status code: %d, body: %s"
  \<^item> \<open>DecodeError e\<close>: "error decoding Ollama response: %v"
  \<^item> \<open>UnexpectedFormat result\<close>: "unexpected response format from Ollama: %+v"
  \<^item> \<open>EmptyOllamaSummary\<close>: "Ollama returned an empty summary"
\<close>

datatype gen_error =
    MarshalError string
  | CreateRequestError string
  | PostError string
  | ReadBodyError string
  | Non200 int string
  | DecodeError string
  | UnexpectedFormat jobject
  | EmptyOllamaSummary

subsection \<open>HTTP responses\<close>

text \<open>
  What a handler writes to its \<^verbatim>\<open>ResponseWriter\<close>: the status code and the body.
  \<^item> \<open>ErrorText msg\<close>: the body written by \<^verbatim>\<open>http.Error(w, msg, code)\<close> (the message
    as plain text);
  \<^item> \<open>FailedToGenerate err\<close>: \<^verbatim>\<open>http.Error\<close> with the message
    "Failed to generate summary: %v" printing the error \<open>err\<close>;
  \<^item> \<open>StudentJSON s\<close>, \<open>StudentListJSON ss\<close>: a student, a list of students, encoded
    as JSON;
  \<^item> \<open>SummaryJSON t\<close>: the JSON object with the single field "summary" holding \<open>t\<close>;
  \<^item> \<open>NoBody\<close>: nothing written.
\<close>

datatype payload =
    ErrorText string
  | FailedToGenerate gen_error
  | StudentJSON Student
  | StudentListJSON "Student list"
  | SummaryJSON string
  | NoBody

record response =
  status :: int
  content :: payload

abbreviation StatusOK :: int where "StatusOK \<equiv> 200"
abbreviation StatusCreated :: int where "StatusCreated \<equiv> 201"
abbreviation StatusNoContent :: int where "StatusNoContent \<equiv> 204"
abbreviation StatusBadRequest :: int where "StatusBadRequest \<equiv> 400"
abbreviation StatusNotFound :: int where "StatusNotFound \<equiv> 404"
abbreviation StatusConflict :: int where "StatusConflict \<equiv> 409"
abbreviation StatusInternalServerError :: int where "StatusInternalServerError \<equiv> 500"

definition httpError :: "string \<Rightarrow> int \<Rightarrow> response" where
  "httpError msg code = \<lparr>status = code, content = ErrorText msg\<rparr>"

section \<open>The record store\<close>

text \<open>\<^verbatim>\<open>validateID\<close> (lines 86-88).\<close>

definition validateID :: "int \<Rightarrow> bool" where
  "validateID i \<longleftrightarrow> i \<ge> 10000000 \<and> i \<le> 99999999"

text \<open>
  Inputs of the handlers. The body of a request is given by what
  \<^verbatim>\<open>json.NewDecoder(r.Body).Decode(&student)\<close> returns: \<open>Inl e\<close> for an error with
  text \<open>e\<close>, \<open>Inr s\<close> for the decoded student. The path variable is given by what
  \<^verbatim>\<open>strconv.Atoi(vars["id"])\<close> returns: \<open>None\<close> for an error, \<open>Some i\<close> for the
  integer \<open>i\<close>.
\<close>

type_synonym body = "string + Student"
type_synonym path_id = "int option"

text \<open>\<^verbatim>\<open>createStudent\<close> (lines 90-120).\<close>

definition createStudent :: "state \<Rightarrow> body \<Rightarrow> response \<times> state" where
  "createStudent st b =
    (case b of
       Inl err \<Rightarrow> (httpError err StatusBadRequest, st)
     | Inr student \<Rightarrow>
         if \<not> validateID (ID student) then
           (httpError ''Invalid student ID: must be an 8-digit integer'' StatusBadRequest, st)
         else if Name student = [] \<or> Age student \<le> 0 \<or> Email student = [] then
           (httpError ''Invalid student data'' StatusBadRequest, st)
         else if students st (ID student) \<noteq> None then
           (httpError ''Student ID already exists'' StatusConflict, st)
         else
           (\<lparr>status = StatusCreated, content = StudentJSON student\<rparr>,
            st\<lparr>students := (students st)(ID student \<mapsto> student)\<rparr>))"

text \<open>
  \<^verbatim>\<open>getAllStudents\<close> (lines 122-132). Go leaves the order in which \<^verbatim>\<open>range\<close> visits
  a map open; the keys in the order of the visit are the argument \<open>visit\<close>.
\<close>

definition getAllStudents :: "state \<Rightarrow> int list \<Rightarrow> response \<times> state" where
  "getAllStudents st visit =
    (\<lparr>status = StatusOK, content = StudentListJSON (List.map_filter (students st) visit)\<rparr>, st)"

text \<open>\<^verbatim>\<open>getStudent\<close> (lines 134-153).\<close>

definition getStudent :: "state \<Rightarrow> path_id \<Rightarrow> response \<times> state" where
  "getStudent st p =
    (case p of
       None \<Rightarrow> (httpError ''Invalid student ID: must be an 8-digit integer'' StatusBadRequest, st)
     | Some i \<Rightarrow>
         if \<not> validateID i then
           (httpError ''Invalid student ID: must be an 8-digit integer'' StatusBadRequest, st)
         else
           (case students st i of
              None \<Rightarrow> (httpError ''Student not found'' StatusNotFound, st)
            | Some student \<Rightarrow> (\<lparr>status = StatusOK, content = StudentJSON student\<rparr>, st)))"

text \<open>\<^verbatim>\<open>updateStudent\<close> (lines 155-192).\<close>

definition updateStudent :: "state \<Rightarrow> path_id \<Rightarrow> body \<Rightarrow> response \<times> state" where
  "updateStudent st p b =
    (case p of
       None \<Rightarrow> (httpError ''Invalid student ID: must be an 8-digit integer'' StatusBadRequest, st)
     | Some i \<Rightarrow>
         if \<not> validateID i then
           (httpError ''Invalid student ID: must be an 8-digit integer'' StatusBadRequest, st)
         else
           (case b of
              Inl err \<Rightarrow> (httpError err StatusBadRequest, st)
            | Inr student \<Rightarrow>
                if ID student \<noteq> i then
                  (httpError ''Student ID in body does not match URL'' StatusBadRequest, st)
                else if Name student = [] \<or> Age student \<le> 0 \<or> Email student = [] then
                  (httpError ''Invalid student data'' StatusBadRequest, st)
                else if students st i = None then
                  (httpError ''Student not found'' StatusNotFound, st)
                else
                  (\<lparr>status = StatusOK, content = StudentJSON student\<rparr>,
                   st\<lparr>students := (students st)(i \<mapsto> student)\<rparr>)))"

text \<open>\<^verbatim>\<open>deleteStudent\<close> (lines 194-213).\<close>

definition deleteStudent :: "state \<Rightarrow> path_id \<Rightarrow> response \<times> state" where
  "deleteStudent st p =
    (case p of
       None \<Rightarrow> (httpError ''Invalid student ID: must be an 8-digit integer'' StatusBadRequest, st)
     | Some i \<Rightarrow>
         if \<not> validateID i then
           (httpError ''Invalid student ID: must be an 8-digit integer'' StatusBadRequest, st)
         else if students st i = None then
           (httpError ''Student not found'' StatusNotFound, st)
         else
           (\<lparr>status = StatusNoContent, content = NoBody\<rparr>,
            st\<lparr>students := (students st)(i := None)\<rparr>))"

section \<open>Summary generation\<close>

subsection \<open>Printing an integer with the verb %d\<close>

fun dec :: "nat \<Rightarrow> string" where
  "dec n = (if n < 10 then [''0123456789'' ! n] else dec (n div 10) @ [''0123456789'' ! (n mod 10)])"

declare dec.simps [simp del]

definition itoa :: "int \<Rightarrow> string" where
  "itoa i = (if i < 0 then CHR ''-'' # dec (nat (- i)) else dec (nat i))"

subsection \<open>The fallback (lines 317-320)\<close>

text \<open>
  A Go function returning \<^verbatim>\<open>(string, error)\<close> returns a pair here; the error
  \<^verbatim>\<open>nil\<close> is \<open>None\<close>.
\<close>

definition generateFallbackSummary :: "Student \<Rightarrow> string \<times> gen_error option" where
  "generateFallbackSummary student =
    (''Student '' @ Name student @ '' is '' @ itoa (Age student) @
     '' years old and can be contacted at '' @ Email student @ ''.'', None)"

subsection \<open>The remote service (lines 256-315)\<close>

text \<open>
  The request body that is marshalled: the fields "model", "prompt" and "stream".
\<close>

record generate_request =
  model :: string
  prompt :: string
  stream :: bool

text \<open>
  What happens outside the program when the request is made, in the order of the
  calls: \<^verbatim>\<open>json.Marshal\<close> fails; \<^verbatim>\<open>http.NewRequestWithContext\<close> fails;
  \<^verbatim>\<open>client.Do\<close> fails (this includes the timeout of 60 seconds);
  \<^verbatim>\<open>ioutil.ReadAll\<close> fails; or a response arrives whose status code and body were
  read.
\<close>

datatype exchange =
    MarshalFailed string
  | NewRequestFailed string
  | DoFailed string
  | ReadAllFailed string
  | Received int string

text \<open>
  The environment of one call: \<open>post e url body\<close> is the outcome of posting \<open>body\<close> to
  \<open>url\<close>, and \<open>unmarshal e\<close> is \<^verbatim>\<open>json.Unmarshal\<close> into a
  \<^verbatim>\<open>map[string]interface{}\<close>: \<open>Inl err\<close> for an error, \<open>Inr result\<close> for the map.
\<close>

record env =
  post :: "string \<Rightarrow> generate_request \<Rightarrow> exchange"
  unmarshal :: "string \<Rightarrow> string + jobject"

abbreviation nl :: string where "nl \<equiv> [CHR 0x0A]"

text \<open>Lines 257-264: the address and the body of the request.\<close>

definition generateURL :: "string \<Rightarrow> string" where
  "generateURL host = host @ ''/api/generate''"

definition generateRequest :: "Student \<Rightarrow> generate_request" where
  "generateRequest student =
    \<lparr>model = ''llama2'',
     prompt =
       ''Summarize this student profile using only the provided details. Be brief, accurate, and creative:''
       @ nl @ nl @ ''Profile:'' @ nl @ ''- Name: '' @ Name student @ nl
       @ ''- Age: '' @ itoa (Age student) @ nl @ ''- Email: '' @ Email student @ nl @ nl
       @ ''Note: Make the summary catchy and to the point without adding any extra information.'',
     stream = False\<rparr>"

definition generateSummaryWithOllama ::
    "env \<Rightarrow> string \<Rightarrow> Student \<Rightarrow> string \<times> gen_error option" where
  "generateSummaryWithOllama e host student =
    (case post e (generateURL host) (generateRequest student) of
       MarshalFailed err \<Rightarrow> ([], Some (MarshalError err))
     | NewRequestFailed err \<Rightarrow> ([], Some (CreateRequestError err))
     | DoFailed err \<Rightarrow> ([], Some (PostError err))
     | ReadAllFailed err \<Rightarrow> ([], Some (ReadBodyError err))
     | Received code body \<Rightarrow>
         if code \<noteq> StatusOK then ([], Some (Non200 code body))
         else
           (case unmarshal e body of
              Inl err \<Rightarrow> ([], Some (DecodeError err))
            | Inr result \<Rightarrow>
                (case result ''response'' of
                   Some (JString summary) \<Rightarrow>
                     if summary = [] then ([], Some EmptyOllamaSummary) else (summary, None)
                 | _ \<Rightarrow> ([], Some (UnexpectedFormat result)))))"

subsection \<open>The handler (lines 214-254)\<close>

text \<open>
  Lines 239-253 of \<^verbatim>\<open>getStudentSummary\<close>: what the handler writes, given the pair
  \<^verbatim>\<open>summary, err\<close> that the chosen generator returned.
\<close>

definition writeSummary :: "string \<times> gen_error option \<Rightarrow> response" where
  "writeSummary r =
    (case r of
       (summary, Some err) \<Rightarrow>
         \<lparr>status = StatusInternalServerError, content = FailedToGenerate err\<rparr>
     | (summary, None) \<Rightarrow>
         if summary = [] then httpError ''Generated summary is empty'' StatusInternalServerError
         else \<lparr>status = StatusOK, content = SummaryJSON summary\<rparr>)"

definition getStudentSummary :: "env \<Rightarrow> state \<Rightarrow> path_id \<Rightarrow> response \<times> state" where
  "getStudentSummary e st p =
    (case p of
       None \<Rightarrow> (httpError ''Invalid student ID: must be an 8-digit integer'' StatusBadRequest, st)
     | Some i \<Rightarrow>
         if \<not> validateID i then
           (httpError ''Invalid student ID: must be an 8-digit integer'' StatusBadRequest, st)
         else
           (case students st i of
              None \<Rightarrow> (httpError ''Student not found'' StatusNotFound, st)
            | Some student \<Rightarrow>
                (writeSummary
                   (if useOllama st then generateSummaryWithOllama e (ollamaHost st) student
                    else generateFallbackSummary student),
                 st)))"

section \<open>The server (lines 33-83)\<close>

text \<open>
  \<^verbatim>\<open>checkOllamaAvailability\<close>: the probe either fails before a response arrives
  (no request could be built, or \<^verbatim>\<open>Do\<close> failed, which includes the timeout of 5
  seconds) or returns a status code.
\<close>

datatype probe = ProbeFailed | ProbeStatus int

definition checkOllamaAvailability :: "probe \<Rightarrow> bool" where
  "checkOllamaAvailability pr = (case pr of ProbeFailed \<Rightarrow> False | ProbeStatus code \<Rightarrow> code = StatusOK)"

text \<open>
  The state in which \<^verbatim>\<open>main\<close> starts to serve: the map is empty, \<^verbatim>\<open>ollamaHost\<close> is
  the environment variable \<^verbatim>\<open>OLLAMA_HOST\<close> or its default, \<^verbatim>\<open>useOllama\<close> is the
  result of the probe.
\<close>

definition initial :: "string \<Rightarrow> probe \<Rightarrow> state" where
  "initial host_env pr =
    \<lparr>students = Map.empty,
     ollamaHost = (if host_env = [] then ''http://localhost:11434'' else host_env),
     useOllama = checkOllamaAvailability pr\<rparr>"

text \<open>The six routes that \<^verbatim>\<open>main\<close> registers (lines 36-41), with the inputs of each handler.\<close>

datatype request =
    PostStudents body
  | GetStudents "int list"
  | GetStudent path_id
  | PutStudent path_id body
  | DeleteStudent path_id
  | GetStudentSummary env path_id

fun serve :: "state \<Rightarrow> request \<Rightarrow> response \<times> state" where
  "serve st (PostStudents b) = createStudent st b"
| "serve st (GetStudents visit) = getAllStudents st visit"
| "serve st (GetStudent p) = getStudent st p"
| "serve st (PutStudent p b) = updateStudent st p b"
| "serve st (DeleteStudent p) = deleteStudent st p"
| "serve st (GetStudentSummary e p) = getStudentSummary e st p"

text \<open>The state after a sequence of requests, served one after the other.\<close>

fun run :: "state \<Rightarrow> request list \<Rightarrow> state" where
  "run st [] = st"
| "run st (r # rs) = run (snd (serve st r)) rs"

section \<open>Example data\<close>

definition ada :: Student where
  "ada = \<lparr>ID = 12345678, Name = ''Ada'', Age = 30, Email = ''ada@x.com''\<rparr>"

definition bob :: Student where
  "bob = \<lparr>ID = 87654321, Name = ''Bob'', Age = 41, Email = ''bob@y.org''\<rparr>"

definition empty_store :: state where
  "empty_store = initial [] ProbeFailed"

definition ada_store :: state where
  "ada_store = snd (createStudent empty_store (Inr ada))"

definition remote_store :: state where
  "remote_store = snd (createStudent (initial [] (ProbeStatus 200)) (Inr ada))"

text \<open>Three environments of the remote call, and a store with two records.\<close>

definition busy :: env where
  "busy = \<lparr>post = (\<lambda>u r. Received 503 ''Service Unavailable''), unmarshal = (\<lambda>b. Inl ''unexpected end of JSON input'')\<rparr>"

definition garbled :: env where
  "garbled = \<lparr>post = (\<lambda>u r. Received 200 ''<html>''),
     unmarshal = (\<lambda>b. Inl ''invalid character'')\<rparr>"

definition fieldless :: env where
  "fieldless = \<lparr>post = (\<lambda>u r. Received 200 ''{}''),
     unmarshal = (\<lambda>b. if b = ''{}'' then Inr Map.empty else Inl ''invalid character'')\<rparr>"

text \<open>
  An environment in which the remote service answers 200 with the JSON object whose
  field "response" is the empty string (\<open>CHR 0x22\<close> is the double quote).
\<close>

definition blank_body :: string where
  "blank_body = ''{'' @ [CHR 0x22] @ ''response'' @ [CHR 0x22] @ '':'' @ [CHR 0x22, CHR 0x22] @ ''}''"

definition blank_result :: jobject where
  "blank_result = [''response'' \<mapsto> JString []]"

definition blank :: env where
  "blank = \<lparr>post = (\<lambda>u r. Received 200 blank_body),
     unmarshal = (\<lambda>b. if b = blank_body then Inr blank_result else Inl ''invalid character'')\<rparr>"

definition both_store :: state where
  "both_store = snd (createStudent ada_store (Inr bob))"

section \<open>The invariant of the store\<close>

definition store_ok :: "(int \<rightharpoonup> Student) \<Rightarrow> bool" where
  "store_ok m \<longleftrightarrow>
    (\<forall>k s. m k = Some s \<longrightarrow>
       ID s = k \<and> validateID (ID s) \<and> Name s \<noteq> [] \<and> Email s \<noteq> [] \<and> 0 < Age s)"

section \<open>Lemmas\<close>

text \<open>Every handler preserves the invariant, so every sequence of requests does.\<close>

lemma serve_store_ok: "store_ok (students st) \<Longrightarrow> store_ok (students (snd (serve st r)))"
  by (cases r)
     (auto simp: store_ok_def createStudent_def getAllStudents_def getStudent_def
        updateStudent_def deleteStudent_def getStudentSummary_def
        split: sum.splits option.splits if_splits)

lemma run_store_ok: "store_ok (students st) \<Longrightarrow> store_ok (students (run st rs))"
  by (induction rs arbitrary: st) (simp_all add: serve_store_ok)

lemma initial_store_ok: "store_ok (students (initial h pr))"
  by (simp add: store_ok_def initial_def)

text \<open>The example stores, computed.\<close>

lemma ada_store_eq:
  "ada_store = \<lparr>students = [12345678 \<mapsto> ada], ollamaHost = ''http://localhost:11434'', useOllama = False\<rparr>"
  by (simp add: ada_store_def empty_store_def initial_def createStudent_def validateID_def ada_def
      checkOllamaAvailability_def)

lemma remote_store_eq:
  "remote_store = \<lparr>students = [12345678 \<mapsto> ada], ollamaHost = ''http://localhost:11434'', useOllama = True\<rparr>"
  by (simp add: remote_store_def initial_def createStudent_def validateID_def ada_def
      checkOllamaAvailability_def)

lemma both_store_eq:
  "both_store = \<lparr>students = [12345678 \<mapsto> ada, 87654321 \<mapsto> bob],
     ollamaHost = ''http://localhost:11434'', useOllama = False\<rparr>"
  by (simp add: both_store_def ada_store_eq createStudent_def validateID_def bob_def)

text \<open>The decimal printing on examples.\<close>

lemma itoa_examples: "itoa 30 = ''30''" "itoa 0 = ''0''" "itoa (- 7) = ''-7''" "itoa 1234567890 = ''1234567890''"
  by (simp_all add: itoa_def dec.simps)

text \<open>
  The remote path never returns an empty text without an error: an empty "response" field
  is reported by \<open>generateSummaryWithOllama\<close> itself (lines 309-311), as the error
  "Ollama returned an empty summary".
\<close>

lemma remote_text_not_empty:
  "generateSummaryWithOllama e host s \<noteq> ([], None)"
  by (auto simp: generateSummaryWithOllama_def split: exchange.splits sum.splits option.splits jvalue.splits)

section \<open>Claims about the record store\<close>

text \<open>
  C1. Store invariant. In every state that the server reaches from its initial state by
  serving any sequence of requests (any of the six routes, with any inputs), every
  stored record is valid and correctly keyed: if the key \<open>k\<close> holds the record \<open>s\<close>,
  then the id of \<open>s\<close> is \<open>k\<close>, the id is in the range from 10000000 to 99999999, the
  name and the email are not empty and the age is positive. The only writes of a
  record, in \<open>createStudent\<close> and \<open>updateStudent\<close>, come after the validation.
\<close>

theorem store_invariant:
  "students (run (initial h pr) rs) k = Some s \<Longrightarrow>
     ID s = k \<and> validateID (ID s) \<and> Name s \<noteq> [] \<and> Email s \<noteq> [] \<and> 0 < Age s"
  using run_store_ok [OF initial_store_ok, of h pr rs] unfolding store_ok_def by blast

text \<open>
  An instance: Ada is created, a record for Bob with age 0 is refused, Bob is created,
  Ada is updated, Bob is deleted; the record left under Ada's key is the updated one.
\<close>

theorem store_invariant_witness:
  "students (run (initial [] ProbeFailed)
      [PostStudents (Inr ada), PostStudents (Inr (bob\<lparr>Age := 0\<rparr>)), PostStudents (Inr bob),
       PutStudent (Some 12345678) (Inr (ada\<lparr>Age := 31\<rparr>)), DeleteStudent (Some 87654321)])
     12345678 = Some (ada\<lparr>Age := 31\<rparr>)
   \<and> ID (ada\<lparr>Age := 31\<rparr>) = 12345678 \<and> validateID (ID (ada\<lparr>Age := 31\<rparr>))
   \<and> Name (ada\<lparr>Age := 31\<rparr>) \<noteq> [] \<and> Email (ada\<lparr>Age := 31\<rparr>) \<noteq> [] \<and> 0 < Age (ada\<lparr>Age := 31\<rparr>)"
proof -
  have h: "students (run (initial [] ProbeFailed)
      [PostStudents (Inr ada), PostStudents (Inr (bob\<lparr>Age := 0\<rparr>)), PostStudents (Inr bob),
       PutStudent (Some 12345678) (Inr (ada\<lparr>Age := 31\<rparr>)), DeleteStudent (Some 87654321)])
     12345678 = Some (ada\<lparr>Age := 31\<rparr>)"
    by (simp add: initial_def createStudent_def updateStudent_def deleteStudent_def
        validateID_def ada_def bob_def)
  from h store_invariant [OF h] show ?thesis by (rule conjI)
qed

text \<open>
  C2. For every id outside the range from 10000000 to 99999999, each operation that
  takes an id (get, update with any body, delete, summary in any environment) answers
  with status 400 and the message for an invalid id (InvalidInput), and returns the
  state it was given.
\<close>

theorem invalid_id_rejected:
  "\<not> validateID i \<Longrightarrow>
     getStudent st (Some i) =
       (httpError ''Invalid student ID: must be an 8-digit integer'' StatusBadRequest, st)
   \<and> updateStudent st (Some i) b =
       (httpError ''Invalid student ID: must be an 8-digit integer'' StatusBadRequest, st)
   \<and> deleteStudent st (Some i) =
       (httpError ''Invalid student ID: must be an 8-digit integer'' StatusBadRequest, st)
   \<and> getStudentSummary e st (Some i) =
       (httpError ''Invalid student ID: must be an 8-digit integer'' StatusBadRequest, st)"
  by (simp add: getStudent_def updateStudent_def deleteStudent_def getStudentSummary_def)

theorem invalid_id_rejected_witness:
  "\<not> validateID 9999999
   \<and> getStudent ada_store (Some 9999999) =
       (httpError ''Invalid student ID: must be an 8-digit integer'' StatusBadRequest, ada_store)
   \<and> updateStudent ada_store (Some 9999999) (Inr (ada\<lparr>ID := 9999999\<rparr>)) =
       (httpError ''Invalid student ID: must be an 8-digit integer'' StatusBadRequest, ada_store)
   \<and> deleteStudent ada_store (Some 9999999) =
       (httpError ''Invalid student ID: must be an 8-digit integer'' StatusBadRequest, ada_store)
   \<and> getStudentSummary \<lparr>post = (\<lambda>u r. DoFailed []), unmarshal = (\<lambda>b. Inl [])\<rparr> ada_store (Some 9999999) =
       (httpError ''Invalid student ID: must be an 8-digit integer'' StatusBadRequest, ada_store)"
proof -
  have h: "\<not> validateID 9999999" by (simp add: validateID_def)
  from h invalid_id_rejected [OF h] show ?thesis by (rule conjI)
qed

text \<open>
  C3. Round trip. For every valid record (id in the range, name and email not empty,
  age positive) and every state whose store has no record under that id, creating the
  record answers 201 with the record unchanged and stores it under its id, and getting
  that id in the resulting state answers 200 with the same record.
\<close>

theorem create_then_get:
  "validateID (ID s) \<Longrightarrow> Name s \<noteq> [] \<Longrightarrow> Email s \<noteq> [] \<Longrightarrow> 0 < Age s \<Longrightarrow>
   students st (ID s) = None \<Longrightarrow>
     createStudent st (Inr s) =
       (\<lparr>status = StatusCreated, content = StudentJSON s\<rparr>,
        st\<lparr>students := (students st)(ID s \<mapsto> s)\<rparr>)
   \<and> getStudent (snd (createStudent st (Inr s))) (Some (ID s)) =
       (\<lparr>status = StatusOK, content = StudentJSON s\<rparr>, snd (createStudent st (Inr s)))"
  by (simp add: createStudent_def getStudent_def)

theorem create_then_get_witness:
  "(validateID (ID bob) \<and> Name bob \<noteq> [] \<and> Email bob \<noteq> [] \<and> 0 < Age bob
    \<and> students ada_store (ID bob) = None)
   \<and> createStudent ada_store (Inr bob) =
       (\<lparr>status = StatusCreated, content = StudentJSON bob\<rparr>,
        ada_store\<lparr>students := (students ada_store)(ID bob \<mapsto> bob)\<rparr>)
   \<and> getStudent (snd (createStudent ada_store (Inr bob))) (Some (ID bob)) =
       (\<lparr>status = StatusOK, content = StudentJSON bob\<rparr>, snd (createStudent ada_store (Inr bob)))"
proof -
  have h: "validateID (ID bob)" "Name bob \<noteq> []" "Email bob \<noteq> []" "0 < Age bob"
    "students ada_store (ID bob) = None"
    by (simp_all add: validateID_def bob_def ada_store_eq)
  from h have "validateID (ID bob) \<and> Name bob \<noteq> [] \<and> Email bob \<noteq> [] \<and> 0 < Age bob
    \<and> students ada_store (ID bob) = None" by blast
  from this create_then_get [OF h] show ?thesis by (rule conjI)
qed

text \<open>
  C4, as stated, fails: the validation of the fields comes before the test for
  presence. In the store that holds Ada, creating a record with Ada's id and an empty
  name answers 400 "Invalid student data" (InvalidInput), not 409 (AlreadyExists).
\<close>

theorem create_existing_counterexample:
  "students ada_store (ID (ada\<lparr>Name := []\<rparr>)) = Some ada
   \<and> createStudent ada_store (Inr (ada\<lparr>Name := []\<rparr>)) =
       (httpError ''Invalid student data'' StatusBadRequest, ada_store)
   \<and> fst (createStudent ada_store (Inr (ada\<lparr>Name := []\<rparr>))) \<noteq>
       httpError ''Student ID already exists'' StatusConflict"
  by (simp add: ada_store_eq createStudent_def validateID_def ada_def httpError_def)

text \<open>
  C4, amended. For every state and every record whose id is already present, creating
  it returns the state unchanged (so the record stored under that id is unmodified);
  if the record passes the validation (id in the range, name and email not empty, age
  positive), the answer is 409 "Student ID already exists" (AlreadyExists).
\<close>

theorem create_existing:
  "students st (ID s) \<noteq> None \<Longrightarrow>
     snd (createStudent st (Inr s)) = st
   \<and> (validateID (ID s) \<and> Name s \<noteq> [] \<and> Email s \<noteq> [] \<and> 0 < Age s \<longrightarrow>
        createStudent st (Inr s) = (httpError ''Student ID already exists'' StatusConflict, st))"
  by (auto simp: createStudent_def)

theorem create_existing_witness:
  "students ada_store (ID (ada\<lparr>Age := 31\<rparr>)) \<noteq> None
   \<and> snd (createStudent ada_store (Inr (ada\<lparr>Age := 31\<rparr>))) = ada_store
   \<and> createStudent ada_store (Inr (ada\<lparr>Age := 31\<rparr>)) =
       (httpError ''Student ID already exists'' StatusConflict, ada_store)"
proof -
  have h: "students ada_store (ID (ada\<lparr>Age := 31\<rparr>)) \<noteq> None"
    by (simp add: ada_store_eq ada_def)
  have v: "validateID (ID (ada\<lparr>Age := 31\<rparr>)) \<and> Name (ada\<lparr>Age := 31\<rparr>) \<noteq> []
    \<and> Email (ada\<lparr>Age := 31\<rparr>) \<noteq> [] \<and> 0 < Age (ada\<lparr>Age := 31\<rparr>)"
    by (simp add: validateID_def ada_def)
  from create_existing [OF h] h v show ?thesis by blast
qed

text \<open>
  C5. For every path id in the range and every decoded body whose id differs from the
  path id, update answers 400 "Student ID in body does not match URL" (InvalidInput)
  and returns the state unchanged, whatever the store holds under the path id.
\<close>

theorem update_id_mismatch:
  "validateID i \<Longrightarrow> ID s \<noteq> i \<Longrightarrow>
     updateStudent st (Some i) (Inr s) =
       (httpError ''Student ID in body does not match URL'' StatusBadRequest, st)"
  by (simp add: updateStudent_def)

text \<open>
  Two instances, in the store that holds Ada: the path id of Ada (present) and a path
  id that is absent, each with Bob's record as the body.
\<close>

theorem update_id_mismatch_witness:
  "(validateID 12345678 \<and> ID bob \<noteq> 12345678 \<and> students ada_store 12345678 \<noteq> None
    \<and> updateStudent ada_store (Some 12345678) (Inr bob) =
        (httpError ''Student ID in body does not match URL'' StatusBadRequest, ada_store))
   \<and> (validateID 55555555 \<and> ID bob \<noteq> 55555555 \<and> students ada_store 55555555 = None
    \<and> updateStudent ada_store (Some 55555555) (Inr bob) =
        (httpError ''Student ID in body does not match URL'' StatusBadRequest, ada_store))"
proof -
  have h: "validateID 12345678" "ID bob \<noteq> 12345678" "validateID 55555555" "ID bob \<noteq> 55555555"
    by (simp_all add: validateID_def bob_def)
  have g: "students ada_store 12345678 \<noteq> None" "students ada_store 55555555 = None"
    by (simp_all add: ada_store_eq)
  from update_id_mismatch [OF h(1,2)] update_id_mismatch [OF h(3,4)] h g show ?thesis by blast
qed

text \<open>
  C6. For every id in the range that is present in the store, delete answers 204 with
  no body and removes the entry, and getting the same id in the resulting state answers
  404 "Student not found" (NotFound).
\<close>

theorem delete_then_get:
  "validateID i \<Longrightarrow> students st i = Some s \<Longrightarrow>
     deleteStudent st (Some i) =
       (\<lparr>status = StatusNoContent, content = NoBody\<rparr>, st\<lparr>students := (students st)(i := None)\<rparr>)
   \<and> getStudent (snd (deleteStudent st (Some i))) (Some i) =
       (httpError ''Student not found'' StatusNotFound, snd (deleteStudent st (Some i)))"
  by (simp add: deleteStudent_def getStudent_def)

theorem delete_then_get_witness:
  "(validateID 12345678 \<and> students ada_store 12345678 = Some ada)
   \<and> deleteStudent ada_store (Some 12345678) =
       (\<lparr>status = StatusNoContent, content = NoBody\<rparr>,
        ada_store\<lparr>students := (students ada_store)(12345678 := None)\<rparr>)
   \<and> getStudent (snd (deleteStudent ada_store (Some 12345678))) (Some 12345678) =
       (httpError ''Student not found'' StatusNotFound, snd (deleteStudent ada_store (Some 12345678)))"
proof -
  have h: "validateID 12345678" "students ada_store 12345678 = Some ada"
    by (simp_all add: validateID_def ada_store_eq)
  from h have "validateID 12345678 \<and> students ada_store 12345678 = Some ada" by blast
  from this delete_then_get [OF h] show ?thesis by (rule conjI)
qed

section \<open>Claims about the summary\<close>

text \<open>
  C7. When the remote service is not used (\<open>useOllama\<close> is false), the summary of every
  record is exactly the sentence "Student {name} is {age} years old and can be
  contacted at {email}." with the record's name, its age in decimal and its email, and
  the path never fails: the fallback returns no error, what the handler writes for its
  result is the answer 200 with that sentence, and so the handler answers any id in the
  range that is present in the store.
\<close>

theorem fallback_summary:
  "snd (generateFallbackSummary s) = None
   \<and> writeSummary (generateFallbackSummary s) =
     \<lparr>status = StatusOK,
      content = SummaryJSON (''Student '' @ Name s @ '' is '' @ itoa (Age s) @
                  '' years old and can be contacted at '' @ Email s @ ''.'')\<rparr>
   \<and> (\<not> useOllama st \<longrightarrow> validateID i \<longrightarrow> students st i = Some s \<longrightarrow>
        getStudentSummary e st (Some i) =
          (\<lparr>status = StatusOK,
            content = SummaryJSON (''Student '' @ Name s @ '' is '' @ itoa (Age s) @
                        '' years old and can be contacted at '' @ Email s @ ''.'')\<rparr>, st))"
  by (simp add: getStudentSummary_def writeSummary_def generateFallbackSummary_def)

text \<open>
  The example of the specification: Ada, aged 30, in a server whose probe failed.
\<close>

theorem fallback_summary_witness:
  "(\<not> useOllama ada_store \<and> validateID 12345678 \<and> students ada_store 12345678 = Some ada)
   \<and> getStudentSummary \<lparr>post = (\<lambda>u r. DoFailed ''connection refused''), unmarshal = (\<lambda>b. Inl [])\<rparr>
        ada_store (Some 12345678) =
      (\<lparr>status = StatusOK,
        content = SummaryJSON ''Student Ada is 30 years old and can be contacted at ada@x.com.''\<rparr>,
       ada_store)"
proof -
  have h: "\<not> useOllama ada_store" "validateID 12345678" "students ada_store 12345678 = Some ada"
    by (simp_all add: ada_store_eq validateID_def)
  have t: "''Student '' @ Name ada @ '' is '' @ itoa (Age ada) @
      '' years old and can be contacted at '' @ Email ada @ ''.'' =
      ''Student Ada is 30 years old and can be contacted at ada@x.com.''"
    by (simp add: ada_def itoa_def dec.simps)
  from fallback_summary [of ada ada_store 12345678] h
  have "getStudentSummary \<lparr>post = (\<lambda>u r. DoFailed ''connection refused''), unmarshal = (\<lambda>b. Inl [])\<rparr>
        ada_store (Some 12345678) =
      (\<lparr>status = StatusOK,
        content = SummaryJSON (''Student '' @ Name ada @ '' is '' @ itoa (Age ada) @
      '' years old and can be contacted at '' @ Email ada @ ''.'')\<rparr>,
       ada_store)" by blast
  with h t show ?thesis by simp
qed

text \<open>
  C8. When the remote service is used, the record is found and a response of the remote
  service was read in full, then: a status other than 200 (so every status that is not
  a success), a body that \<open>json.Unmarshal\<close> rejects, and a decoded body with no string
  under "response" each make the handler answer 500 "Failed to generate summary: ..."
  (GenerationFailed) carrying the cause (the status and the body, the decoding error,
  the decoded map). In none of these cases is the answer the one of the local template.
\<close>

theorem remote_failure:
  "useOllama st \<Longrightarrow> validateID i \<Longrightarrow> students st i = Some s \<Longrightarrow>
   post e (generateURL (ollamaHost st)) (generateRequest s) = Received code body \<Longrightarrow>
     (code \<noteq> StatusOK \<longrightarrow>
        getStudentSummary e st (Some i) =
          (\<lparr>status = StatusInternalServerError, content = FailedToGenerate (Non200 code body)\<rparr>, st))
   \<and> (code = StatusOK \<longrightarrow> unmarshal e body = Inl err \<longrightarrow>
        getStudentSummary e st (Some i) =
          (\<lparr>status = StatusInternalServerError, content = FailedToGenerate (DecodeError err)\<rparr>, st))
   \<and> (code = StatusOK \<longrightarrow> unmarshal e body = Inr result \<longrightarrow>
        (\<forall>t. result ''response'' \<noteq> Some (JString t)) \<longrightarrow>
        getStudentSummary e st (Some i) =
          (\<lparr>status = StatusInternalServerError, content = FailedToGenerate (UnexpectedFormat result)\<rparr>, st))
   \<and> ((code \<noteq> StatusOK \<or> (\<exists>err. unmarshal e body = Inl err)
        \<or> (\<exists>result. unmarshal e body = Inr result \<and> (\<forall>t. result ''response'' \<noteq> Some (JString t)))) \<longrightarrow>
        fst (getStudentSummary e st (Some i)) \<noteq> writeSummary (generateFallbackSummary s))"
  by (auto simp: getStudentSummary_def writeSummary_def generateSummaryWithOllama_def
        generateFallbackSummary_def split: option.splits jvalue.splits)

text \<open>
  Three instances: status 503; status 200 with a body that is not JSON; status 200 with
  the object without fields.
\<close>

theorem remote_failure_witness:
  "(useOllama remote_store \<and> validateID 12345678 \<and> students remote_store 12345678 = Some ada)
   \<and> (post busy (generateURL (ollamaHost remote_store)) (generateRequest ada) =
         Received 503 ''Service Unavailable''
       \<and> getStudentSummary busy remote_store (Some 12345678) =
          (\<lparr>status = StatusInternalServerError,
            content = FailedToGenerate (Non200 503 ''Service Unavailable'')\<rparr>, remote_store))
   \<and> (post garbled (generateURL (ollamaHost remote_store)) (generateRequest ada) =
         Received 200 ''<html>''
       \<and> unmarshal garbled ''<html>'' = Inl ''invalid character''
       \<and> getStudentSummary garbled remote_store (Some 12345678) =
          (\<lparr>status = StatusInternalServerError,
            content = FailedToGenerate (DecodeError ''invalid character'')\<rparr>, remote_store))
   \<and> (post fieldless (generateURL (ollamaHost remote_store)) (generateRequest ada) =
         Received 200 ''{}''
       \<and> unmarshal fieldless ''{}'' = Inr Map.empty
       \<and> getStudentSummary fieldless remote_store (Some 12345678) =
          (\<lparr>status = StatusInternalServerError,
            content = FailedToGenerate (UnexpectedFormat Map.empty)\<rparr>, remote_store)
       \<and> fst (getStudentSummary fieldless remote_store (Some 12345678)) \<noteq>
            writeSummary (generateFallbackSummary ada))"
proof -
  have h: "useOllama remote_store" "validateID 12345678" "students remote_store 12345678 = Some ada"
    by (simp_all add: remote_store_eq validateID_def)
  have p1: "post busy (generateURL (ollamaHost remote_store)) (generateRequest ada) =
         Received 503 ''Service Unavailable''"
    by (simp add: busy_def)
  have p2: "post garbled (generateURL (ollamaHost remote_store)) (generateRequest ada) =
         Received 200 ''<html>''"
    by (simp add: garbled_def)
  have u2: "unmarshal garbled ''<html>'' = Inl ''invalid character''"
    by (simp add: garbled_def)
  have p3: "post fieldless (generateURL (ollamaHost remote_store)) (generateRequest ada) =
         Received 200 ''{}''"
    by (simp add: fieldless_def)
  have u3: "unmarshal fieldless ''{}'' = Inr Map.empty"
    by (simp add: fieldless_def)
  have n: "(503::int) \<noteq> StatusOK" "\<forall>t. (Map.empty :: jobject) ''response'' \<noteq> Some (JString t)"
    by simp_all
  from remote_failure [OF h p1, of "[]" Map.empty] n
  have c1: "getStudentSummary busy remote_store (Some 12345678) =
          (\<lparr>status = StatusInternalServerError,
            content = FailedToGenerate (Non200 503 ''Service Unavailable'')\<rparr>, remote_store)"
    by blast
  from remote_failure [OF h p2, of "''invalid character''" Map.empty] u2
  have c2: "getStudentSummary garbled remote_store (Some 12345678) =
          (\<lparr>status = StatusInternalServerError,
            content = FailedToGenerate (DecodeError ''invalid character'')\<rparr>, remote_store)"
    by blast
  from remote_failure [OF h p3, of "[]" Map.empty] u3 n
  have c3: "getStudentSummary fieldless remote_store (Some 12345678) =
          (\<lparr>status = StatusInternalServerError,
            content = FailedToGenerate (UnexpectedFormat Map.empty)\<rparr>, remote_store)"
    "fst (getStudentSummary fieldless remote_store (Some 12345678)) \<noteq>
            writeSummary (generateFallbackSummary ada)"
    by blast+
  from h p1 p2 u2 p3 u3 c1 c2 c3 show ?thesis by blast
qed

text \<open>
  C9, as stated, fails on the remote path. When the remote service answers 200 with a
  "response" field that is the empty string, \<open>generateSummaryWithOllama\<close> itself returns
  the error "Ollama returned an empty summary" (lines 309-311), and the handler, which
  tests the error first (line 239), answers 500 "Failed to generate summary: ..."
  (GenerationFailed), not 500 "Generated summary is empty" (EmptySummary).
\<close>

theorem empty_summary_counterexample:
  "useOllama remote_store \<and> students remote_store 12345678 = Some ada
   \<and> post blank (generateURL (ollamaHost remote_store)) (generateRequest ada) = Received 200 blank_body
   \<and> unmarshal blank blank_body = Inr blank_result
   \<and> blank_result ''response'' = Some (JString [])
   \<and> getStudentSummary blank remote_store (Some 12345678) =
        (\<lparr>status = StatusInternalServerError, content = FailedToGenerate EmptyOllamaSummary\<rparr>,
         remote_store)
   \<and> fst (getStudentSummary blank remote_store (Some 12345678)) \<noteq>
        httpError ''Generated summary is empty'' StatusInternalServerError"
  by (simp add: remote_store_eq blank_def blank_result_def getStudentSummary_def validateID_def
      generateSummaryWithOllama_def writeSummary_def httpError_def)

text \<open>
  C9, amended. An empty summary text is always an error, but never the error
  EmptySummary. On the remote path, a response with status 200 whose "response" field is
  the empty string makes the handler answer 500 "Failed to generate summary: Ollama
  returned an empty summary" (GenerationFailed carrying that cause), with the state
  unchanged. The text of the fallback is never empty, and the remote path never returns
  an empty text without an error. So the handler's test of lines 245-249 is unreachable
  on both paths: for every environment, state and path id, the answer of the handler is
  not 500 "Generated summary is empty".
\<close>

theorem empty_summary_unreachable:
  "(useOllama st \<longrightarrow> validateID i \<longrightarrow> students st i = Some s \<longrightarrow>
      post e (generateURL (ollamaHost st)) (generateRequest s) = Received StatusOK body \<longrightarrow>
      unmarshal e body = Inr result \<longrightarrow> result ''response'' = Some (JString []) \<longrightarrow>
        getStudentSummary e st (Some i) =
          (\<lparr>status = StatusInternalServerError, content = FailedToGenerate EmptyOllamaSummary\<rparr>, st))
   \<and> fst (generateFallbackSummary s) \<noteq> []
   \<and> generateSummaryWithOllama e (ollamaHost st) s \<noteq> ([], None)
   \<and> fst (getStudentSummary e st p) \<noteq>
        httpError ''Generated summary is empty'' StatusInternalServerError"
proof -
  have a: "useOllama st \<longrightarrow> validateID i \<longrightarrow> students st i = Some s \<longrightarrow>
      post e (generateURL (ollamaHost st)) (generateRequest s) = Received StatusOK body \<longrightarrow>
      unmarshal e body = Inr result \<longrightarrow> result ''response'' = Some (JString []) \<longrightarrow>
        getStudentSummary e st (Some i) =
          (\<lparr>status = StatusInternalServerError, content = FailedToGenerate EmptyOllamaSummary\<rparr>, st)"
    by (simp add: getStudentSummary_def generateSummaryWithOllama_def writeSummary_def)
  have b: "fst (generateFallbackSummary s) \<noteq> []"
    by (simp add: generateFallbackSummary_def)
  have c: "generateSummaryWithOllama e h t \<noteq> ([], None)" for h t
    by (rule remote_text_not_empty)
  have w: "r \<noteq> ([], None) \<Longrightarrow>
      writeSummary r \<noteq> httpError ''Generated summary is empty'' StatusInternalServerError" for r
    by (cases r) (auto simp: writeSummary_def httpError_def split: option.splits)
  have f: "generateFallbackSummary t \<noteq> ([], None)" for t
    by (simp add: generateFallbackSummary_def)
  have d: "fst (getStudentSummary e st p) \<noteq>
        httpError ''Generated summary is empty'' StatusInternalServerError"
    by (auto simp: getStudentSummary_def httpError_def w [unfolded httpError_def] c f
        split: option.splits)
  from a b c d show ?thesis by blast
qed

text \<open>
  An instance in which every hypothesis of the remote part holds: Ada's summary, in a
  server whose probe succeeded, when the remote service returns the empty text.
\<close>

theorem empty_summary_unreachable_witness:
  "(useOllama remote_store \<and> validateID 12345678 \<and> students remote_store 12345678 = Some ada
    \<and> post blank (generateURL (ollamaHost remote_store)) (generateRequest ada) =
        Received StatusOK blank_body
    \<and> unmarshal blank blank_body = Inr blank_result
    \<and> blank_result ''response'' = Some (JString []))
   \<and> getStudentSummary blank remote_store (Some 12345678) =
        (\<lparr>status = StatusInternalServerError, content = FailedToGenerate EmptyOllamaSummary\<rparr>,
         remote_store)"
proof -
  have h: "useOllama remote_store" "validateID 12345678" "students remote_store 12345678 = Some ada"
    "post blank (generateURL (ollamaHost remote_store)) (generateRequest ada) =
       Received StatusOK blank_body"
    "unmarshal blank blank_body = Inr blank_result"
    "blank_result ''response'' = Some (JString [])"
    by (simp_all add: remote_store_eq validateID_def blank_def blank_result_def)
  from empty_summary_unreachable
    [of remote_store 12345678 ada blank blank_body blank_result "Some 12345678"] h
  show ?thesis by blast
qed

section \<open>Frame property\<close>

text \<open>
  C10. For every state and every id \<open>x\<close>, creating a record with id \<open>x\<close>, updating at
  \<open>x\<close> (with any body) and deleting at \<open>x\<close> leave the entry of the store under every
  key other than \<open>x\<close> as it was, whether the operation succeeds or fails.
\<close>

theorem frame:
  "(k \<noteq> ID s \<longrightarrow> students (snd (createStudent st (Inr s))) k = students st k)
   \<and> (k \<noteq> x \<longrightarrow> students (snd (updateStudent st (Some x) b)) k = students st k)
   \<and> (k \<noteq> x \<longrightarrow> students (snd (deleteStudent st (Some x))) k = students st k)"
  by (auto simp: createStudent_def updateStudent_def deleteStudent_def split: sum.splits)


text \<open>
  Instances in which each operation succeeds on Bob's key: Ada's entry stays, Bob's is
  inserted, replaced, removed.
\<close>

theorem frame_witness:
  "(12345678 \<noteq> ID bob
    \<and> students (snd (createStudent ada_store (Inr bob))) 12345678 = students ada_store 12345678)
   \<and> (12345678 \<noteq> (87654321::int)
    \<and> students (snd (updateStudent both_store (Some 87654321) (Inr (bob\<lparr>Age := 42\<rparr>)))) 12345678
        = students both_store 12345678
    \<and> students (snd (deleteStudent both_store (Some 87654321))) 12345678
        = students both_store 12345678)
   \<and> students both_store 12345678 = Some ada
   \<and> students (snd (updateStudent both_store (Some 87654321) (Inr (bob\<lparr>Age := 42\<rparr>)))) 87654321
        = Some (bob\<lparr>Age := 42\<rparr>)
   \<and> students (snd (deleteStudent both_store (Some 87654321))) 87654321 = None"
proof -
  have h: "12345678 \<noteq> ID bob" "12345678 \<noteq> (87654321::int)"
    by (simp_all add: bob_def)
  have g: "students both_store 12345678 = Some ada"
   "students (snd (updateStudent both_store (Some 87654321) (Inr (bob\<lparr>Age := 42\<rparr>)))) 87654321
        = Some (bob\<lparr>Age := 42\<rparr>)"
   "students (snd (deleteStudent both_store (Some 87654321))) 87654321 = None"
    by (simp_all add: both_store_eq updateStudent_def deleteStudent_def validateID_def bob_def)
  from frame [of 12345678 bob ada_store 87654321 "Inr (bob\<lparr>Age := 42\<rparr>)"]
       frame [of 12345678 bob both_store 87654321 "Inr (bob\<lparr>Age := 42\<rparr>)"] h g
  show ?thesis by blast
qed


end
